theory Spec2Isabelle
  imports Complex_Main
begin

section \<open>JavaScript numbers\<close>

text \<open>
  Every amount and duration of \<^verbatim>\<open>script.js\<close> is a JavaScript number. The catalogue
  entries, the offered durations and the columns of the schema (\<^verbatim>\<open>INTEGER\<close>,
  \<^verbatim>\<open>DECIMAL(10, 2)\<close>) are finite, so the inputs of the pricing function are
  rationals. Its result is a \<open>jsnum\<close>: the division of the source does not raise
  on a zero divisor, it yields \<^verbatim>\<open>NaN\<close> or an infinity, and these propagate
  through the product and the sum as IEEE 754 prescribes. Finite arithmetic is exact
  in the model; the rounding of binary64 is not modelled (it is the identity on the
  small integers of the catalogue).
\<close>

datatype jsnum = Num rat | NaN | Infinity | NegInfinity

definition js_div :: "rat \<Rightarrow> rat \<Rightarrow> jsnum" where
  "js_div a b =
     (if b = 0 then (if a = 0 then NaN else if 0 < a then Infinity else NegInfinity)
      else Num (a / b))"

fun js_times :: "jsnum \<Rightarrow> rat \<Rightarrow> jsnum" where
  "js_times (Num a) b = Num (a * b)"
| "js_times NaN b = NaN"
| "js_times Infinity b = (if b = 0 then NaN else if 0 < b then Infinity else NegInfinity)"
| "js_times NegInfinity b = (if b = 0 then NaN else if 0 < b then NegInfinity else Infinity)"

fun js_plus :: "rat \<Rightarrow> jsnum \<Rightarrow> jsnum" where
  "js_plus a (Num b) = Num (a + b)"
| "js_plus a NaN = NaN"
| "js_plus a Infinity = Infinity"
| "js_plus a NegInfinity = NegInfinity"

section \<open>Service catalogue and pricing\<close>

text \<open>An entry of \<^verbatim>\<open>SERVICES\<close> (and a row of the table \<^verbatim>\<open>services\<close>).\<close>

record service =
  sid :: nat
  name :: string
  baseDuration :: rat
  basePrice :: rat
  increment :: rat
  incrementPrice :: rat

definition SERVICES :: "service list" where
  "SERVICES =
     [\<lparr>sid = 1, name = ''Stressbuster'', baseDuration = 60, basePrice = 80,
        increment = 30, incrementPrice = 40\<rparr>,
      \<lparr>sid = 2, name = ''Sports Massage'', baseDuration = 60, basePrice = 90,
        increment = 30, incrementPrice = 45\<rparr>,
      \<lparr>sid = 3, name = ''Deep Tissue'', baseDuration = 60, basePrice = 100,
        increment = 30, incrementPrice = 50\<rparr>,
      \<lparr>sid = 4, name = ''Swedish Relaxation'', baseDuration = 60, basePrice = 85,
        increment = 30, incrementPrice = 42\<rparr>,
      \<lparr>sid = 5, name = ''Prenatal'', baseDuration = 60, basePrice = 95,
        increment = 30, incrementPrice = 47\<rparr>]"

text \<open>
  \<^verbatim>\<open>calculatePrice\<close> of \<^verbatim>\<open>ServiceStep\<close>. The argument \<open>service\<close> is an
  entry of the catalogue or \<^verbatim>\<open>null\<close>; \<^verbatim>\<open>!service\<close> holds for \<^verbatim>\<open>null\<close> only.
\<close>

definition calculatePrice :: "service option \<Rightarrow> rat \<Rightarrow> jsnum" where
  "calculatePrice service duration =
     (case service of
        None \<Rightarrow> Num 0
      | Some s \<Rightarrow>
          (let additionalTime = duration - baseDuration s;
               additionalIncrements = js_div additionalTime (increment s)
           in js_plus (basePrice s) (js_times additionalIncrements (incrementPrice s))))"



text \<open>
  The booking data of \<^verbatim>\<open>BookingFlow\<close>, passed to every step as \<open>data\<close>. Identifiers
  of users and bookings are opaque; of the chosen therapist only the identifier is
  read. \<^verbatim>\<open>handleSubmit\<close> of \<^verbatim>\<open>ServiceStep\<close> merges the chosen service, the duration
  and the price computed from them into it (\<^verbatim>\<open>updateBookingData\<close>). This is the only
  place where a price is computed.
\<close>

type_synonym uuid = nat

record booking_data =
  data_address :: string
  data_lat :: "rat option"
  data_lon :: "rat option"
  data_service :: "service option"
  data_duration :: rat
  data_date :: string
  data_time :: string
  data_therapist :: "uuid option"
  data_parking :: string
  data_roomDetails :: string
  data_price :: jsnum

definition ServiceStep_handleSubmit :: "service option \<Rightarrow> rat \<Rightarrow> booking_data \<Rightarrow> booking_data" where
  "ServiceStep_handleSubmit service d bd =
     bd\<lparr>data_service := service, data_duration := d, data_price := calculatePrice service d\<rparr>"

section \<open>The store\<close>

text \<open>
  The tables \<^verbatim>\<open>bookings\<close> and \<^verbatim>\<open>payments\<close> of \<^verbatim>\<open>supabase-schema.sql\<close>, with the
  columns the client writes. The status columns take the values of their \<^verbatim>\<open>CHECK\<close>
  constraints.
\<close>

datatype booking_status = Requested | Confirmed | Declined | Completed | Cancelled

record booking =
  customer_id :: uuid
  therapist_id :: uuid
  service_id :: nat
  duration :: rat
  date :: string
  time :: string
  address :: string
  lat :: "rat option"
  lon :: "rat option"
  parking :: string
  room_details :: string
  price :: jsnum
  status :: booking_status

datatype payment_status = PaymentPending | PaymentCompleted | PaymentFailed | PaymentRefunded

record payment =
  booking_id :: "uuid option"
  stripe_payment_id :: string
  amount :: jsnum
  payment_status :: payment_status

record store =
  bookings_table :: "uuid \<rightharpoonup> booking"
  payments_table :: "payment list"

text \<open>
  The store and the payment provider are external: what they answer is an input of the
  model. An insert into \<^verbatim>\<open>bookings\<close> answers with an error or with the identifier of the
  new row; an update answers with an error, or without one, and then it has either
  changed the addressed row or changed none (no row has the identifier, or the
  row-level policies hide it from the session).
\<close>

datatype insert_reply = InsertError string | Inserted uuid

datatype update_reply = UpdateError string | Updated | NoRowUpdated

datatype plain_reply = ReplyError string | ReplyOk

datatype stripe_reply = StripeError string | PaymentMethod string

datatype fetch_reply = FetchData | FetchNull | FetchThrows

text \<open>
  \<^verbatim>\<open>supabase.from('bookings').update({ status: st }).eq('id', bid)\<close>: the statement
  has no condition on the current status of the row.
\<close>

definition update_booking_status :: "update_reply \<Rightarrow> uuid option \<Rightarrow> booking_status \<Rightarrow> store \<Rightarrow> store" where
  "update_booking_status r bid st s =
     (case r of
        Updated \<Rightarrow>
          (case bid of
             None \<Rightarrow> s
           | Some i \<Rightarrow>
               (case bookings_table s i of
                  None \<Rightarrow> s
                | Some b \<Rightarrow> s\<lparr>bookings_table := (bookings_table s)(i \<mapsto> b\<lparr>status := st\<rparr>)\<rparr>))
      | _ \<Rightarrow> s)"

section \<open>Therapist dashboard\<close>

text \<open>
  The state of \<^verbatim>\<open>TherapistDashboard\<close>: the therapist and the rows fetched last,
  keyed by identifier (the order of display is not modelled).
\<close>

record dashboard =
  user_id :: uuid
  bookings :: "uuid \<rightharpoonup> booking"
  loading :: bool

text \<open>
  \<^verbatim>\<open>fetchBookings\<close>: the rows of the therapist with status \<^verbatim>\<open>requested\<close> or
  \<^verbatim>\<open>confirmed\<close>; \<^verbatim>\<open>data || []\<close> empties the list when the store answers with an
  error, an exception leaves it as it is.
\<close>

definition fetchBookings :: "fetch_reply \<Rightarrow> store \<Rightarrow> dashboard \<Rightarrow> dashboard" where
  "fetchBookings r s d =
     (case r of
        FetchData \<Rightarrow>
          d\<lparr>bookings :=
               (\<lambda>i. case bookings_table s i of
                      None \<Rightarrow> None
                    | Some b \<Rightarrow>
                        if therapist_id b = user_id d \<and> status b \<in> {Requested, Confirmed}
                        then Some b else None),
             loading := False\<rparr>
      | FetchNull \<Rightarrow> d\<lparr>bookings := Map.empty, loading := False\<rparr>
      | FetchThrows \<Rightarrow> d\<lparr>loading := False\<rparr>)"

text \<open>
  \<^verbatim>\<open>handleBookingResponse\<close>: the update, then a new fetch unless the store answered
  with an error. An exception is logged and nothing is raised to the caller.
\<close>

definition handleBookingResponse ::
    "update_reply \<Rightarrow> fetch_reply \<Rightarrow> uuid \<Rightarrow> booking_status \<Rightarrow> store \<times> dashboard \<Rightarrow> store \<times> dashboard" where
  "handleBookingResponse r fr bookingId response sd =
     (case sd of (s, d) \<Rightarrow>
        (case r of
           UpdateError e \<Rightarrow> (s, d)
         | _ \<Rightarrow>
            (let s' = update_booking_status r (Some bookingId) response s
             in (s', fetchBookings fr s' d))))"

text \<open>
  The buttons Accept and Decline are rendered for a fetched row whose status is
  \<^verbatim>\<open>requested\<close>; they call \<^verbatim>\<open>handleBookingResponse\<close> with \<^verbatim>\<open>'confirmed'\<close> and
  \<^verbatim>\<open>'declined'\<close>.
\<close>

definition responseOffered :: "dashboard \<Rightarrow> uuid \<Rightarrow> bool" where
  "responseOffered d i \<longleftrightarrow> (case bookings d i of None \<Rightarrow> False | Some b \<Rightarrow> status b = Requested)"

datatype button = Accept | Decline

definition clickResponse ::
    "update_reply \<Rightarrow> fetch_reply \<Rightarrow> uuid \<Rightarrow> button \<Rightarrow> store \<times> dashboard \<Rightarrow> store \<times> dashboard" where
  "clickResponse r fr i b sd =
     (if responseOffered (snd sd) i
      then handleBookingResponse r fr i (case b of Accept \<Rightarrow> Confirmed | Decline \<Rightarrow> Declined) sd
      else sd)"

section \<open>Payment form\<close>

text \<open>
  The state of \<^verbatim>\<open>PaymentForm\<close>: its props \<open>data\<close> and \<open>user\<close>, its five state
  variables, whether the 5000 ms timer of the simulated response is set, and whether
  \<^verbatim>\<open>onSuccess\<close> has been called. The request status of the customer side is a state
  variable of the component (\<^verbatim>\<open>'pending'\<close>, \<^verbatim>\<open>'accepted'\<close>, \<^verbatim>\<open>'timeout'\<close>); it is
  not the status column of the stored row.
\<close>

datatype request_status = Pending | Accepted | Timeout

record payment_form =
  data :: booking_data
  user :: uuid
  processing :: bool
  error :: string
  bookingId :: "uuid option"
  requestStatus :: request_status
  timeRemaining :: int
  responseTimer :: bool
  onSuccessCalled :: bool

definition mountPaymentForm :: "booking_data \<Rightarrow> uuid \<Rightarrow> payment_form" where
  "mountPaymentForm bd u =
     \<lparr>data = bd, user = u, processing = False, error = [], bookingId = None,
      requestStatus = Pending, timeRemaining = 120, responseTimer = False,
      onSuccessCalled = False\<rparr>"

text \<open>
  The countdown effect, run after every render in which the remaining time or the
  request status has changed. In its first branch it sets a timer of 1000 ms, which the
  cleanup clears when either value changes; \<open>countdownTimerSet\<close> tells whether that
  timer is pending, and \<open>tick\<close> is the timer firing: the callback stores the
  remaining time minus one and the effect runs again.
\<close>

definition countdownTimerSet :: "payment_form \<Rightarrow> bool" where
  "countdownTimerSet f \<longleftrightarrow> requestStatus f = Pending \<and> timeRemaining f > 0"

definition countdownEffect :: "payment_form \<Rightarrow> payment_form" where
  "countdownEffect f =
     (if requestStatus f = Pending \<and> timeRemaining f > 0 then f
      else if timeRemaining f = 0 \<and> requestStatus f = Pending then f\<lparr>requestStatus := Timeout\<rparr>
      else f)"

definition tick :: "payment_form \<Rightarrow> payment_form" where
  "tick f =
     (if countdownTimerSet f then countdownEffect (f\<lparr>timeRemaining := timeRemaining f - 1\<rparr>)
      else f)"

text \<open>
  \<^verbatim>\<open>createBookingRequest\<close>, called once when the form mounts, at the point where the
  store has answered. Reading \<^verbatim>\<open>data.therapist.id\<close> or \<^verbatim>\<open>data.service.id\<close> of
  \<^verbatim>\<open>null\<close> throws inside the \<^verbatim>\<open>try\<close> block. The identifier is the primary key of
  the table, so the store cannot answer with one that is in use. Neither the duration
  nor the price is examined. On success the timer of the simulated response is set.
\<close>

definition createBookingRequest :: "insert_reply \<Rightarrow> store \<times> payment_form \<Rightarrow> store \<times> payment_form" where
  "createBookingRequest r sf =
     (case sf of (s, f) \<Rightarrow>
        (case data_therapist (data f) of
           None \<Rightarrow> (s, f\<lparr>error := ''Failed to create booking request''\<rparr>)
         | Some th \<Rightarrow>
            (case data_service (data f) of
               None \<Rightarrow> (s, f\<lparr>error := ''Failed to create booking request''\<rparr>)
             | Some sv \<Rightarrow>
                (case r of
                   InsertError e \<Rightarrow> (s, f\<lparr>error := ''Failed to create booking request''\<rparr>)
                 | Inserted i \<Rightarrow>
                    (if bookings_table s i \<noteq> None
                     then (s, f\<lparr>error := ''Failed to create booking request''\<rparr>)
                     else
                       (s\<lparr>bookings_table := (bookings_table s)(i \<mapsto>
                            \<lparr>customer_id = user f, therapist_id = th, service_id = sid sv,
                             duration = data_duration (data f), date = data_date (data f),
                             time = data_time (data f), address = data_address (data f),
                             lat = data_lat (data f), lon = data_lon (data f),
                             parking = data_parking (data f),
                             room_details = data_roomDetails (data f),
                             price = data_price (data f), status = Requested\<rparr>)\<rparr>,
                        f\<lparr>bookingId := Some i, responseTimer := True\<rparr>))))))"

text \<open>
  The callback of the 5000 ms timer set by \<^verbatim>\<open>createBookingRequest\<close>: it stores
  \<^verbatim>\<open>'accepted'\<close> whatever the request status is, and the countdown effect runs on the
  new status.
\<close>

definition simulatedResponse :: "payment_form \<Rightarrow> payment_form" where
  "simulatedResponse f =
     (if responseTimer f
      then countdownEffect (f\<lparr>requestStatus := Accepted, responseTimer := False\<rparr>)
      else f)"

text \<open>
  \<^verbatim>\<open>handlePayment\<close>. The first argument tells whether \<^verbatim>\<open>stripe\<close> and \<^verbatim>\<open>elements\<close>
  are loaded. Every failure ends in the \<^verbatim>\<open>catch\<close> block, which stores the message;
  no status is written there, neither in the form nor in the store.
\<close>

definition handlePayment ::
    "bool \<Rightarrow> stripe_reply \<Rightarrow> update_reply \<Rightarrow> plain_reply \<Rightarrow> store \<times> payment_form \<Rightarrow> store \<times> payment_form" where
  "handlePayment loaded sr ur pr sf =
     (case sf of (s, f) \<Rightarrow>
        (if \<not> loaded \<or> requestStatus f \<noteq> Accepted then (s, f)
         else
           (case sr of
              StripeError m \<Rightarrow> (s, f\<lparr>processing := False, error := m\<rparr>)
            | PaymentMethod pm \<Rightarrow>
               (case ur of
                  UpdateError m \<Rightarrow> (s, f\<lparr>processing := False, error := m\<rparr>)
                | _ \<Rightarrow>
                   (let s' = update_booking_status ur (bookingId f) Confirmed s
                    in (case pr of
                          ReplyError m \<Rightarrow> (s', f\<lparr>processing := False, error := m\<rparr>)
                        | ReplyOk \<Rightarrow>
                            (s'\<lparr>payments_table := payments_table s' @
                                 [\<lparr>booking_id = bookingId f, stripe_payment_id = pm,
                                   amount = data_price (data f),
                                   payment_status = PaymentCompleted\<rparr>]\<rparr>,
                             f\<lparr>processing := False, error := [],
                               onSuccessCalled := True\<rparr>)))))))"

text \<open>The submit button of the form is disabled by this condition.\<close>

definition payDisabled :: "bool \<Rightarrow> payment_form \<Rightarrow> bool" where
  "payDisabled loaded f \<longleftrightarrow> \<not> loaded \<or> processing f \<or> requestStatus f \<noteq> Accepted"

section \<open>Runs of the application\<close>

text \<open>
  One store, one payment form of a customer and one dashboard of a therapist. An event
  is a timer firing, an answer of the store or of the payment provider arriving, or a
  click; a run applies a list of events in order.
\<close>

record app =
  the_store :: store
  the_form :: payment_form
  the_dashboard :: dashboard

datatype event =
    Tick
  | CreateReply insert_reply
  | Response
  | Pay bool stripe_reply update_reply plain_reply
  | Fetch fetch_reply
  | Click update_reply fetch_reply uuid button

fun step :: "event \<Rightarrow> app \<Rightarrow> app" where
  "step Tick a = a\<lparr>the_form := tick (the_form a)\<rparr>"
| "step (CreateReply r) a =
     (case createBookingRequest r (the_store a, the_form a) of
        (s, f) \<Rightarrow> a\<lparr>the_store := s, the_form := f\<rparr>)"
| "step Response a = a\<lparr>the_form := simulatedResponse (the_form a)\<rparr>"
| "step (Pay loaded sr ur pr) a =
     (case handlePayment loaded sr ur pr (the_store a, the_form a) of
        (s, f) \<Rightarrow> a\<lparr>the_store := s, the_form := f\<rparr>)"
| "step (Fetch r) a = a\<lparr>the_dashboard := fetchBookings r (the_store a) (the_dashboard a)\<rparr>"
| "step (Click r fr i b) a =
     (case clickResponse r fr i b (the_store a, the_dashboard a) of
        (s, d) \<Rightarrow> a\<lparr>the_store := s, the_dashboard := d\<rparr>)"

fun run :: "event list \<Rightarrow> app \<Rightarrow> app" where
  "run [] a = a"
| "run (e # es) a = run es (step e a)"

definition mount :: "store \<Rightarrow> booking_data \<Rightarrow> uuid \<Rightarrow> dashboard \<Rightarrow> app" where
  "mount s bd u d = \<lparr>the_store = s, the_form = mountPaymentForm bd u, the_dashboard = d\<rparr>"

section \<open>A concrete scenario\<close>

text \<open>
  A customer (user 3) has chosen the first service of the catalogue for 90 minutes with
  therapist 7; the store already holds a requested booking (identifier 1) of another
  customer with the same therapist, whose dashboard has not fetched anything yet.
\<close>

definition demo_data :: booking_data where
  "demo_data =
     ServiceStep_handleSubmit (Some (SERVICES ! 0)) 90
       \<lparr>data_address = ''1 High Street'', data_lat = None, data_lon = None,
        data_service = None, data_duration = 60, data_date = ''2025-03-01'',
        data_time = ''10:00'', data_therapist = Some 7, data_parking = [],
        data_roomDetails = [], data_price = Num 0\<rparr>"

definition demo_booking :: booking where
  "demo_booking =
     \<lparr>customer_id = 4, therapist_id = 7, service_id = 2, duration = 60,
      date = ''2025-03-02'', time = ''09:00'', address = ''2 Low Road'', lat = None,
      lon = None, parking = [], room_details = [], price = Num 90, status = Requested\<rparr>"

definition demo_store :: store where
  "demo_store = \<lparr>bookings_table = [1 \<mapsto> demo_booking], payments_table = []\<rparr>"

definition demo_dashboard :: dashboard where
  "demo_dashboard = \<lparr>user_id = 7, bookings = Map.empty, loading = True\<rparr>"

definition demo_app :: app where
  "demo_app = mount demo_store demo_data 3 demo_dashboard"

text \<open>The status and the price stored for an identifier, if the row exists.\<close>

definition stored_status :: "app \<Rightarrow> uuid \<Rightarrow> booking_status option" where
  "stored_status a i = map_option status (bookings_table (the_store a) i)"


section \<open>Pricing: results\<close>

text \<open>
  C9. Called with an absent service (\<^verbatim>\<open>null\<close>), the pricing function returns 0 for
  every duration: it does not fail.
\<close>

theorem calculatePrice_null: "calculatePrice None d = Num 0"
  by (simp add: calculatePrice_def)






section \<open>Runs: auxiliary facts\<close>

lemma run_append: "run (xs @ ys) a = run ys (run xs a)"
  by (induction xs arbitrary: a) simp_all

lemma run_snoc: "run (xs @ [e]) a = step e (run xs a)"
  by (simp add: run_append)

lemma createBookingRequest_form:
  "requestStatus (snd (createBookingRequest r (s, f))) = requestStatus f \<and>
   timeRemaining (snd (createBookingRequest r (s, f))) = timeRemaining f"
  by (simp add: createBookingRequest_def split: option.splits insert_reply.splits)

lemma handlePayment_form:
  "requestStatus (snd (handlePayment l sr ur pr (s, f))) = requestStatus f \<and>
   timeRemaining (snd (handlePayment l sr ur pr (s, f))) = timeRemaining f"
  by (simp add: handlePayment_def Let_def split: stripe_reply.splits update_reply.splits plain_reply.splits)

lemma step_other_form:
  assumes "e \<noteq> Tick" "e \<noteq> Response"
  shows "requestStatus (the_form (step e a)) = requestStatus (the_form a) \<and>
         timeRemaining (the_form (step e a)) = timeRemaining (the_form a)"
proof (cases e)
  case (CreateReply r)
  then show ?thesis
    using createBookingRequest_form [of r "the_store a" "the_form a"]
    by (simp add: case_prod_unfold)
next
  case (Pay l sr ur pr)
  then show ?thesis
    using handlePayment_form [of l sr ur pr "the_store a" "the_form a"]
    by (simp add: case_prod_unfold)
next
  case (Click r fr i b)
  then show ?thesis by (simp add: case_prod_unfold)
qed (use assms in simp_all)

lemma tick_cases:
  "tick f = (if requestStatus f = Pending \<and> 0 < timeRemaining f
             then (if timeRemaining f = 1 then f\<lparr>timeRemaining := 0, requestStatus := Timeout\<rparr>
                   else f\<lparr>timeRemaining := timeRemaining f - 1\<rparr>)
             else f)"
  by (simp add: tick_def countdownTimerSet_def countdownEffect_def)

lemma simulatedResponse_cases:
  "simulatedResponse f = (if responseTimer f then f\<lparr>requestStatus := Accepted, responseTimer := False\<rparr> else f)"
  by (simp add: simulatedResponse_def countdownEffect_def)

lemma countdown_state:
  "(requestStatus (the_form (run evs (mount s bd u d))) = Pending \<longrightarrow>
      count_list evs Tick < 120 \<and>
      timeRemaining (the_form (run evs (mount s bd u d))) = 120 - int (count_list evs Tick)) \<and>
   (requestStatus (the_form (run evs (mount s bd u d))) = Timeout \<longrightarrow>
      120 \<le> count_list evs Tick \<and> timeRemaining (the_form (run evs (mount s bd u d))) = 0) \<and>
   0 \<le> timeRemaining (the_form (run evs (mount s bd u d)))"
proof (induction evs rule: rev_induct)
  case Nil
  then show ?case by (simp add: mount_def mountPaymentForm_def)
next
  case (snoc e evs)
  let ?a = "run evs (mount s bd u d)"
  consider "e = Tick" | "e = Response" | "e \<noteq> Tick" "e \<noteq> Response" by blast
  then show ?case
  proof cases
    case 1
    with snoc.IH show ?thesis
      by (auto simp: run_snoc tick_cases)
  next
    case 2
    with snoc.IH show ?thesis
      by (auto simp: run_snoc simulatedResponse_cases)
  next
    case 3
    with snoc.IH step_other_form [of e ?a] show ?thesis
      by (simp add: run_snoc)
  qed
qed


lemma accepted_step: "requestStatus (the_form a) = Accepted \<Longrightarrow> requestStatus (the_form (step e a)) = Accepted"
proof -
  assume A: "requestStatus (the_form a) = Accepted"
  consider "e = Tick" | "e = Response" | "e \<noteq> Tick" "e \<noteq> Response" by blast
  then show ?thesis
  proof cases
    case 1
    with A show ?thesis by (simp add: tick_cases)
  next
    case 2
    with A show ?thesis by (simp add: simulatedResponse_cases)
  next
    case 3
    with A step_other_form [of e a] show ?thesis by simp
  qed
qed

lemma accepted_run: "requestStatus (the_form a) = Accepted \<Longrightarrow> requestStatus (the_form (run evs a)) = Accepted"
  by (induction evs arbitrary: a) (simp_all add: accepted_step)

lemma count_list_take: "count_list (take n xs) x \<le> count_list xs x"
proof (induction xs arbitrary: n)
  case Nil
  then show ?case by simp
next
  case (Cons y ys)
  show ?case
  proof (cases n)
    case 0
    then show ?thesis by simp
  next
    case (Suc m)
    with Cons [of m] show ?thesis by simp
  qed
qed

lemma handleBookingResponse_store:
  "fst (handleBookingResponse r fr i response (s, d)) = update_booking_status r (Some i) response s"
  by (simp add: handleBookingResponse_def update_booking_status_def Let_def split: update_reply.splits)







section \<open>Countdown: results\<close>



text \<open>
  C5, as the code has it. The countdown starts at 120 when the form mounts, which is
  when the creation request is sent. If no response has arrived, the request status is
  pending before the 120th tick and \<^verbatim>\<open>timeout\<close> from the 120th tick on, so the change
  to \<^verbatim>\<open>timeout\<close> happens once. An accept that arrives later is not discarded: the
  simulated response stores \<^verbatim>\<open>accepted\<close> whatever the request status is.
\<close>

theorem countdown_timeout:
  assumes "Response \<notin> set evs"
  shows "requestStatus (the_form (run evs (mount s bd u d))) =
           (if count_list evs Tick < 120 then Pending else Timeout)
         \<and> (responseTimer f \<longrightarrow> requestStatus (simulatedResponse f) = Accepted)"
proof -
  let ?f = "the_form (run evs (mount s bd u d))"
  have "requestStatus ?f \<noteq> Accepted"
    using assms
  proof (induction evs rule: rev_induct)
    case Nil
    then show ?case by (simp add: mount_def mountPaymentForm_def)
  next
    case (snoc e evs)
    then have "e \<noteq> Response" and IH: "requestStatus (the_form (run evs (mount s bd u d))) \<noteq> Accepted"
      by auto
    show ?case
    proof (cases "e = Tick")
      case True
      with IH show ?thesis by (simp add: run_snoc tick_cases)
    next
      case False
      with \<open>e \<noteq> Response\<close> IH step_other_form [of e "run evs (mount s bd u d)"]
      show ?thesis by (simp add: run_snoc)
    qed
  qed
  with countdown_state [of evs s bd u d]
  have "requestStatus ?f = (if count_list evs Tick < 120 then Pending else Timeout)"
    by (cases "requestStatus ?f") auto
  then show ?thesis by (simp add: simulatedResponse_cases)
qed

theorem countdown_timeout_witness:
  "Response \<notin> set (replicate 120 Tick) \<and>
   requestStatus (the_form (run (replicate 120 Tick) demo_app)) = Timeout \<and>
   responseTimer (the_form (step (CreateReply (Inserted 2)) demo_app)) \<and>
   requestStatus (simulatedResponse (the_form (step (CreateReply (Inserted 2)) demo_app))) = Accepted"
proof -
  have h: "Response \<notin> set (replicate 120 Tick)" by simp
  have c: "count_list (replicate 120 Tick) Tick = 120" by code_simp
  have t: "responseTimer (the_form (step (CreateReply (Inserted 2)) demo_app))" by code_simp
  from countdown_timeout [OF h, of demo_store demo_data 3 demo_dashboard
      "the_form (step (CreateReply (Inserted 2)) demo_app)"] h c t
  show ?thesis by (simp add: demo_app_def)
qed

text \<open>
  C5 as stated fails: the store answers the insert after 116 ticks, four more ticks
  bring the request status to \<^verbatim>\<open>timeout\<close>, and the simulated response, due five
  seconds after the answer, then turns it into \<^verbatim>\<open>accepted\<close>.
\<close>

theorem late_accept_not_ignored:
  "requestStatus (the_form (run (replicate 116 Tick @ [CreateReply (Inserted 2)] @ replicate 4 Tick)
      demo_app)) = Timeout \<and>
   requestStatus (the_form (run (replicate 116 Tick @ [CreateReply (Inserted 2)] @ replicate 4 Tick
      @ [Response]) demo_app)) = Accepted"
  by code_simp

text \<open>
  C10, as the code has it. A successful creation sets the timer of the simulated
  response. The countdown runs from the mount of the form, not from the answer of the
  store. If the response fires while its timer is set and before the 120th countdown
  tick (as it does when the store answers more than five seconds before the countdown
  ends), then the request status is \<^verbatim>\<open>accepted\<close> from then on, whatever the therapist
  or anyone else does, and it is \<^verbatim>\<open>timeout\<close> at no point of the run.
\<close>

theorem simulated_response_accepts:
  assumes "responseTimer (the_form (run pre (mount s bd u d)))"
    and "count_list pre Tick < 120"
  shows "requestStatus (the_form (run (pre @ Response # post) (mount s bd u d))) = Accepted
         \<and> (\<forall>n. requestStatus (the_form (run (take n (pre @ Response # post)) (mount s bd u d))) \<noteq> Timeout)
         \<and> (data_therapist bd \<noteq> None \<and> data_service bd \<noteq> None \<and> bookings_table s i = None \<longrightarrow>
              responseTimer (the_form (step (CreateReply (Inserted i)) (mount s bd u d))))"
proof (intro conjI allI)
  let ?a = "mount s bd u d"
  have acc: "requestStatus (the_form (step Response (run pre ?a))) = Accepted"
    using assms(1) by (simp add: simulatedResponse_cases)
  then have after: "requestStatus (the_form (run (pre @ Response # xs) ?a)) = Accepted" for xs
    by (simp add: run_append accepted_run)
  from after show "requestStatus (the_form (run (pre @ Response # post) ?a)) = Accepted" .
  show "requestStatus (the_form (run (take n (pre @ Response # post)) ?a)) \<noteq> Timeout" for n
  proof (cases "n \<le> length pre")
    case True
    then have "take n (pre @ Response # post) = take n pre" by simp
    moreover have "count_list (take n pre) Tick < 120"
      using count_list_take [of n pre Tick] assms(2) by simp
    ultimately show ?thesis
      using countdown_state [of "take n pre" s bd u d] by auto
  next
    case False
    then obtain m where "n = length pre + Suc m"
      by (metis Suc_diff_Suc add_Suc_right le_add_diff_inverse less_or_eq_imp_le not_le)
    then have "take n (pre @ Response # post) = pre @ Response # take m post" by simp
    with after [of "take m post"] show ?thesis by simp
  qed
  show "data_therapist bd \<noteq> None \<and> data_service bd \<noteq> None \<and> bookings_table s i = None \<longrightarrow>
      responseTimer (the_form (step (CreateReply (Inserted i)) ?a))"
    by (auto simp: mount_def mountPaymentForm_def createBookingRequest_def)
qed

theorem simulated_response_accepts_witness:
  "responseTimer (the_form (run [Tick, CreateReply (Inserted 2), Tick] demo_app)) \<and>
   count_list [Tick, CreateReply (Inserted 2), Tick] Tick < 120 \<and>
   requestStatus (the_form (run ([Tick, CreateReply (Inserted 2), Tick] @ Response #
       [Tick, Fetch FetchData, Click Updated FetchData 2 Decline]) demo_app)) = Accepted \<and>
   requestStatus (the_form (run (take 3 ([Tick, CreateReply (Inserted 2), Tick] @ Response #
       [Tick, Fetch FetchData, Click Updated FetchData 2 Decline])) demo_app)) \<noteq> Timeout \<and>
   data_therapist demo_data \<noteq> None \<and> data_service demo_data \<noteq> None \<and>
   bookings_table demo_store 2 = None \<and>
   responseTimer (the_form (step (CreateReply (Inserted 2)) demo_app))"
proof -
  have h1: "responseTimer (the_form (run [Tick, CreateReply (Inserted 2), Tick]
      (mount demo_store demo_data 3 demo_dashboard)))"
    unfolding demo_app_def [symmetric] by code_simp
  have h2: "count_list [Tick, CreateReply (Inserted 2), Tick] Tick < 120" by simp
  have h3: "data_therapist demo_data \<noteq> None \<and> data_service demo_data \<noteq> None \<and>
      bookings_table demo_store 2 = None"
    by code_simp
  from simulated_response_accepts [OF h1 h2,
      of "[Tick, Fetch FetchData, Click Updated FetchData 2 Decline]" 2] h1 h2 h3
  show ?thesis unfolding demo_app_def by blast
qed

text \<open>
  C10 as stated fails: the store answers the insert after 117 ticks, the creation has
  succeeded and the request is pending, and three ticks later, before the simulated
  response is due, the request status is \<^verbatim>\<open>timeout\<close>.
\<close>

theorem timeout_after_creation:
  "bookingId (the_form (run (replicate 117 Tick @ [CreateReply (Inserted 2)]) demo_app)) = Some 2 \<and>
   stored_status (run (replicate 117 Tick @ [CreateReply (Inserted 2)]) demo_app) 2 = Some Requested \<and>
   requestStatus (the_form (run (replicate 117 Tick @ [CreateReply (Inserted 2)]) demo_app)) = Pending \<and>
   requestStatus (the_form (run (replicate 117 Tick @ [CreateReply (Inserted 2)] @ replicate 3 Tick)
      demo_app)) = Timeout"
  by code_simp

section \<open>Responses and payment: results\<close>

text \<open>
  C1, as the code has it. A response of the therapist is a plain write, not a
  compare-and-set: when the store applies the update, the stored status of the
  addressed booking becomes the response, whatever it was; when the store answers with
  an error or updates no row, the store is unchanged; nothing is raised and no result
  tells a stale attempt apart. What guards the transitions is the rendering: the
  buttons act only on a row whose fetched status is \<^verbatim>\<open>requested\<close>, and a countdown
  tick changes nothing once the request status is no longer pending.
\<close>

theorem response_is_unconditional_write:
  assumes "bookings_table s i = Some b"
  shows "map_option status
           (bookings_table (fst (handleBookingResponse Updated fr i response (s, d))) i) = Some response
         \<and> fst (handleBookingResponse (UpdateError m) fr i response (s, d)) = s
         \<and> fst (handleBookingResponse NoRowUpdated fr i response (s, d)) = s
         \<and> (\<not> responseOffered d i \<longrightarrow> clickResponse r fr i btn (s, d) = (s, d))
         \<and> (requestStatus f \<noteq> Pending \<longrightarrow> tick f = f)"
  using assms
  by (simp add: handleBookingResponse_store update_booking_status_def clickResponse_def
      tick_def countdownTimerSet_def)

theorem response_is_unconditional_write_witness:
  "bookings_table demo_store 1 = Some demo_booking \<and>
   map_option status (bookings_table
     (fst (handleBookingResponse Updated FetchData 1 Declined (demo_store, demo_dashboard))) 1) = Some Declined \<and>
   \<not> responseOffered demo_dashboard 1 \<and>
   clickResponse Updated FetchData 1 Accept (demo_store, demo_dashboard) = (demo_store, demo_dashboard) \<and>
   requestStatus (simulatedResponse (the_form (step (CreateReply (Inserted 2)) demo_app))) \<noteq> Pending \<and>
   tick (simulatedResponse (the_form (step (CreateReply (Inserted 2)) demo_app))) =
     simulatedResponse (the_form (step (CreateReply (Inserted 2)) demo_app))"
proof -
  have h: "bookings_table demo_store 1 = Some demo_booking" by (simp add: demo_store_def)
  have o: "\<not> responseOffered demo_dashboard 1" by (simp add: responseOffered_def demo_dashboard_def)
  have p: "requestStatus (simulatedResponse (the_form (step (CreateReply (Inserted 2)) demo_app))) \<noteq> Pending"
    by code_simp
  from response_is_unconditional_write [OF h, of FetchData Declined demo_dashboard "''x''"
      Updated Accept "simulatedResponse (the_form (step (CreateReply (Inserted 2)) demo_app))"] h o p
  show ?thesis by simp
qed

text \<open>
  C1 as stated fails: the dashboard fetches the requested booking 1, the therapist
  accepts it, the new fetch fails, so the row shown is still \<^verbatim>\<open>requested\<close>, and a
  click on Decline replaces the stored \<^verbatim>\<open>confirmed\<close> by \<^verbatim>\<open>declined\<close>.
\<close>

theorem second_response_overwrites:
  "stored_status (run [Fetch FetchData, Click Updated FetchThrows 1 Accept] demo_app) 1 = Some Confirmed \<and>
   stored_status (run [Fetch FetchData, Click Updated FetchThrows 1 Accept,
                       Click Updated FetchData 1 Decline] demo_app) 1 = Some Declined"
  by code_simp

text \<open>
  C2, as the code has it. The store has no status \<^verbatim>\<open>accepted\<close>: when the therapist
  accepts a booking shown as requested and the store applies the update, the stored
  status becomes \<^verbatim>\<open>confirmed\<close> at once, and no deadline is examined. On the customer
  side \<^verbatim>\<open>handlePayment\<close> does nothing unless the request status of the form is
  \<^verbatim>\<open>accepted\<close>; when it is, and the payment provider and the store succeed, the
  stored status of the booking of the form becomes \<^verbatim>\<open>confirmed\<close>.
\<close>

theorem accept_stores_confirmed:
  "(bookings_table s i = Some b \<and> responseOffered d i \<longrightarrow>
      map_option status (bookings_table (fst (clickResponse Updated fr i Accept (s, d))) i) = Some Confirmed)
   \<and> (requestStatus f \<noteq> Accepted \<longrightarrow> handlePayment loaded sr ur pr (s, f) = (s, f))
   \<and> (requestStatus g = Accepted \<and> bookingId g = Some j \<and> bookings_table t j = Some c \<longrightarrow>
        map_option status
          (bookings_table (fst (handlePayment True (PaymentMethod pm) Updated pr (t, g))) j) = Some Confirmed)"
  by (simp add: clickResponse_def handleBookingResponse_store update_booking_status_def
      handlePayment_def Let_def split: plain_reply.splits)

theorem accept_stores_confirmed_witness:
  "bookings_table demo_store 1 = Some demo_booking \<and>
   responseOffered (fetchBookings FetchData demo_store demo_dashboard) 1 \<and>
   map_option status (bookings_table (fst (clickResponse Updated FetchData 1 Accept
       (demo_store, fetchBookings FetchData demo_store demo_dashboard))) 1) = Some Confirmed \<and>
   requestStatus (the_form demo_app) \<noteq> Accepted \<and>
   handlePayment True (PaymentMethod ''pm_1'') Updated ReplyOk (demo_store, the_form demo_app)
     = (demo_store, the_form demo_app) \<and>
   requestStatus (the_form (run [CreateReply (Inserted 2), Response] demo_app)) = Accepted \<and>
   bookingId (the_form (run [CreateReply (Inserted 2), Response] demo_app)) = Some 2 \<and>
   map_option status (bookings_table (the_store (run [CreateReply (Inserted 2), Response] demo_app)) 2)
     = Some Requested \<and>
   map_option status (bookings_table (fst (handlePayment True (PaymentMethod ''pm_1'') Updated ReplyOk
       (the_store (run [CreateReply (Inserted 2), Response] demo_app),
        the_form (run [CreateReply (Inserted 2), Response] demo_app)))) 2) = Some Confirmed"
proof -
  let ?a = "run [CreateReply (Inserted 2), Response] demo_app"
  have h1: "bookings_table demo_store 1 = Some demo_booking" by (simp add: demo_store_def)
  have h2: "responseOffered (fetchBookings FetchData demo_store demo_dashboard) 1" by code_simp
  have h3: "requestStatus (the_form demo_app) \<noteq> Accepted" by code_simp
  have h4: "requestStatus (the_form ?a) = Accepted" by code_simp
  have h5: "bookingId (the_form ?a) = Some 2" by code_simp
  have h6: "map_option status (bookings_table (the_store ?a) 2) = Some Requested" by code_simp
  then obtain c where c: "bookings_table (the_store ?a) 2 = Some c" by auto
  from accept_stores_confirmed [of demo_store 1 demo_booking
      "fetchBookings FetchData demo_store demo_dashboard" FetchData "the_form demo_app" True
      "PaymentMethod ''pm_1''" Updated ReplyOk "the_form ?a" 2 "the_store ?a" c "''pm_1''"]
    h1 h2 h3 h4 h5 h6 c
  show ?thesis by simp
qed

text \<open>
  C2 as stated fails: the therapist accepts the requested booking 1 and its stored
  status is \<^verbatim>\<open>confirmed\<close>, with no payment made.
\<close>

theorem accept_confirms_without_payment:
  "stored_status (run [Fetch FetchData] demo_app) 1 = Some Requested \<and>
   stored_status (run [Fetch FetchData, Click Updated FetchData 1 Accept] demo_app) 1 = Some Confirmed \<and>
   payments_table (the_store (run [Fetch FetchData, Click Updated FetchData 1 Accept] demo_app)) = []"
  by code_simp

text \<open>
  C8, as the code has it. A failed payment is not terminal and is not stored as a
  status: when the payment provider or the status update answers with an error on an
  accepted request, \<^verbatim>\<open>handlePayment\<close> only stores the message and clears
  \<^verbatim>\<open>processing\<close>; the store is unchanged, the request status is still
  \<^verbatim>\<open>accepted\<close>, the pay button is enabled again, and a later attempt on the same
  request that succeeds stores \<^verbatim>\<open>confirmed\<close>.
\<close>

theorem payment_failure_not_terminal:
  "(requestStatus f = Accepted \<longrightarrow>
      handlePayment True (StripeError m) ur pr (s, f) = (s, f\<lparr>processing := False, error := m\<rparr>) \<and>
      handlePayment True (PaymentMethod pm) (UpdateError m) pr (s, f)
        = (s, f\<lparr>processing := False, error := m\<rparr>) \<and>
      \<not> payDisabled True (f\<lparr>processing := False, error := m\<rparr>))
   \<and> (requestStatus f = Accepted \<and> bookingId f = Some i \<and> bookings_table s i = Some b \<longrightarrow>
        map_option status (bookings_table (fst (handlePayment True (PaymentMethod pm) Updated ReplyOk
            (handlePayment True (StripeError m) ur pr (s, f)))) i) = Some Confirmed)"
  by (simp add: handlePayment_def payDisabled_def update_booking_status_def Let_def)

theorem payment_failure_not_terminal_witness:
  "requestStatus (the_form (run [CreateReply (Inserted 2), Response] demo_app)) = Accepted \<and>
   bookingId (the_form (run [CreateReply (Inserted 2), Response] demo_app)) = Some 2 \<and>
   map_option status (bookings_table (the_store (run [CreateReply (Inserted 2), Response] demo_app)) 2)
     = Some Requested \<and>
   fst (handlePayment True (StripeError ''card_declined'') Updated ReplyOk
       (the_store (run [CreateReply (Inserted 2), Response] demo_app),
        the_form (run [CreateReply (Inserted 2), Response] demo_app)))
     = the_store (run [CreateReply (Inserted 2), Response] demo_app) \<and>
   map_option status (bookings_table (fst (handlePayment True (PaymentMethod ''pm_1'') Updated ReplyOk
       (handlePayment True (StripeError ''card_declined'') Updated ReplyOk
         (the_store (run [CreateReply (Inserted 2), Response] demo_app),
          the_form (run [CreateReply (Inserted 2), Response] demo_app))))) 2) = Some Confirmed"
proof -
  let ?a = "run [CreateReply (Inserted 2), Response] demo_app"
  have h1: "requestStatus (the_form ?a) = Accepted" by code_simp
  have h2: "bookingId (the_form ?a) = Some 2" by code_simp
  have h3: "map_option status (bookings_table (the_store ?a) 2) = Some Requested" by code_simp
  then obtain b where b: "bookings_table (the_store ?a) 2 = Some b" by auto
  note t = payment_failure_not_terminal [of "the_form ?a" "''card_declined''" Updated ReplyOk
      "the_store ?a" "''pm_1''" 2 b]
  from t h1 have "handlePayment True (StripeError ''card_declined'') Updated ReplyOk
      (the_store ?a, the_form ?a)
      = (the_store ?a, (the_form ?a)\<lparr>processing := False, error := ''card_declined''\<rparr>)"
    by blast
  then have e1: "fst (handlePayment True (StripeError ''card_declined'') Updated ReplyOk
      (the_store ?a, the_form ?a)) = the_store ?a"
    by (simp only: fst_conv)
  from t h1 h2 b have e2: "map_option status (bookings_table
      (fst (handlePayment True (PaymentMethod ''pm_1'') Updated ReplyOk
       (handlePayment True (StripeError ''card_declined'') Updated ReplyOk
         (the_store ?a, the_form ?a)))) 2) = Some Confirmed"
    by blast
  from h1 h2 h3 e1 e2 show ?thesis by blast
qed

text \<open>
  C8 as stated fails: after a declined card the request is still accepted, the stored
  booking is still \<^verbatim>\<open>requested\<close>, the pay button is enabled, and a second payment on
  the same request confirms the booking.
\<close>

theorem payment_retried_after_failure:
  "requestStatus (the_form (run [CreateReply (Inserted 2), Response,
       Pay True (StripeError ''card_declined'') Updated ReplyOk] demo_app)) = Accepted \<and>
   stored_status (run [CreateReply (Inserted 2), Response,
       Pay True (StripeError ''card_declined'') Updated ReplyOk] demo_app) 2 = Some Requested \<and>
   \<not> payDisabled True (the_form (run [CreateReply (Inserted 2), Response,
       Pay True (StripeError ''card_declined'') Updated ReplyOk] demo_app)) \<and>
   stored_status (run [CreateReply (Inserted 2), Response,
       Pay True (StripeError ''card_declined'') Updated ReplyOk,
       Pay True (PaymentMethod ''pm_1'') Updated ReplyOk] demo_app) 2 = Some Confirmed \<and>
   onSuccessCalled (the_form (run [CreateReply (Inserted 2), Response,
       Pay True (StripeError ''card_declined'') Updated ReplyOk,
       Pay True (PaymentMethod ''pm_1'') Updated ReplyOk] demo_app))"
  by code_simp



end
